theory Spec2Isabelle
  imports Main
begin

section \<open>JavaScript values, coercions and exceptions\<close>

text \<open>
  Request bodies, parsed JSON and AB-test payloads are JavaScript values. Numbers are IEEE
  doubles; they stay abstract (type \<open>'n\<close>) and the few coercions the server applies to
  them are the fields of \<open>numops\<close>. Strings are HOL strings, one character for each code
  unit below 256. An object is the list of its own properties in insertion order, with
  distinct keys.
\<close>

datatype 'n jsval =
    JUndefined
  | JNull
  | JBool bool
  | JNum 'n
  | JStr string
  | JArr "'n jsval list"
  | JObj "(string \<times> 'n jsval) list"

datatype js_error =
    JsError string
  | TypeError
  | SyntaxError

record 'n numops =
  num_truthy :: "'n \<Rightarrow> bool"
  num_to_string :: "'n \<Rightarrow> string"
  bool_to_num :: "bool \<Rightarrow> 'n"
  str_eq_num :: "string \<Rightarrow> 'n \<Rightarrow> bool"

text \<open>ToBoolean: what \<open>if (v)\<close>, \<open>! v\<close> and \<open>v || w\<close> test.\<close>

fun truthy :: "'n numops \<Rightarrow> 'n jsval \<Rightarrow> bool" where
  "truthy ops JUndefined = False"
| "truthy ops JNull = False"
| "truthy ops (JBool b) = b"
| "truthy ops (JNum n) = num_truthy ops n"
| "truthy ops (JStr s) = (s \<noteq> [])"
| "truthy ops (JArr xs) = True"
| "truthy ops (JObj kvs) = True"

text \<open>The \<open>typeof\<close> operator on the values above.\<close>

fun typeof :: "'n jsval \<Rightarrow> string" where
  "typeof JUndefined = ''undefined''"
| "typeof JNull = ''object''"
| "typeof (JBool b) = ''boolean''"
| "typeof (JNum n) = ''number''"
| "typeof (JStr s) = ''string''"
| "typeof (JArr xs) = ''object''"
| "typeof (JObj kvs) = ''object''"

text \<open>
  Reading a property \<open>v.name\<close>. Reading from \<open>undefined\<close> or \<open>null\<close> throws a TypeError.
  The server only reads names that no prototype defines (\<open>reason\<close>, \<open>deviceId\<close>, \<open>title\<close>,
  \<open>expiration\<close>, ...), so a value other than an object with that own property gives
  \<open>undefined\<close>.
\<close>

fun get_prop :: "'n jsval \<Rightarrow> string \<Rightarrow> js_error + 'n jsval" where
  "get_prop JUndefined name = Inl TypeError"
| "get_prop JNull name = Inl TypeError"
| "get_prop (JObj kvs) name =
     (case map_of kvs name of None \<Rightarrow> Inr JUndefined | Some v \<Rightarrow> Inr v)"
| "get_prop v name = Inr JUndefined"

text \<open>
  A further read \<open>v.name\<close> from a value that an earlier read has shown to be neither
  \<open>undefined\<close> nor \<open>null\<close>.
\<close>

definition read_prop :: "'n jsval \<Rightarrow> string \<Rightarrow> 'n jsval" where
  "read_prop v name = (case get_prop v name of Inl e \<Rightarrow> JUndefined | Inr x \<Rightarrow> x)"

fun join_comma :: "string list \<Rightarrow> string" where
  "join_comma [] = []"
| "join_comma [s] = s"
| "join_comma (s # t # ss) = s @ '','' @ join_comma (t # ss)"

fun collect :: "(js_error + 'a) list \<Rightarrow> js_error + 'a list" where
  "collect [] = Inr []"
| "collect (Inl e # rs) = Inl e"
| "collect (Inr x # rs) = (case collect rs of Inl e \<Rightarrow> Inl e | Inr xs \<Rightarrow> Inr (x # xs))"

text \<open>
  ToString. An array is joined with commas, \<open>undefined\<close> and \<open>null\<close> elements giving the
  empty string. A plain object gives \<open>[object Object]\<close>, unless it has an own property
  \<open>toString\<close>: a parsed value is never callable, so the conversion throws a TypeError.
\<close>

fun to_string :: "'n numops \<Rightarrow> 'n jsval \<Rightarrow> js_error + string" where
  "to_string ops JUndefined = Inr ''undefined''"
| "to_string ops JNull = Inr ''null''"
| "to_string ops (JBool b) = Inr (if b then ''true'' else ''false'')"
| "to_string ops (JNum n) = Inr (num_to_string ops n)"
| "to_string ops (JStr s) = Inr s"
| "to_string ops (JArr xs) =
     (case collect (map (\<lambda>x. if x = JUndefined \<or> x = JNull then Inr [] else to_string ops x) xs) of
        Inl e \<Rightarrow> Inl e
      | Inr ss \<Rightarrow> Inr (join_comma ss))"
| "to_string ops (JObj kvs) =
     (if ''toString'' \<in> set (map fst kvs) then Inl TypeError else Inr ''[object Object]'')"

text \<open>
  Loose equality \<open>s == v\<close> of a string with a value: a string compares by content, a number
  (and a boolean, converted to a number) with the numeric value of the string, an array or
  object through its primitive, which for these is its string.
\<close>

fun loose_eq_str :: "'n numops \<Rightarrow> string \<Rightarrow> 'n jsval \<Rightarrow> js_error + bool" where
  "loose_eq_str ops s JUndefined = Inr False"
| "loose_eq_str ops s JNull = Inr False"
| "loose_eq_str ops s (JBool b) = Inr (str_eq_num ops s (bool_to_num ops b))"
| "loose_eq_str ops s (JNum n) = Inr (str_eq_num ops s n)"
| "loose_eq_str ops s (JStr t) = Inr (s = t)"
| "loose_eq_str ops s v =
     (case to_string ops v of Inl e \<Rightarrow> Inl e | Inr p \<Rightarrow> Inr (s = p))"

section \<open>Effects of a request handler\<close>

text \<open>
  A handler is modelled by the list of the effects it performs, in order, together with
  the exception that escapes it, if any. Logging, error reporting and analytics calls are
  not effects of the model.
\<close>

text \<open>\<open>new Shot(ownerId, backend, id, attrs)\<close>, as the PUT handler builds it.\<close>

datatype 'n shot = Shot (shot_ownerId: string) (shot_backend: string) (shot_id: string)
  (shot_attrs: "'n jsval")

text \<open>
  A shot as \<open>Shot.get\<close> resolves it: the properties the set-title handler reads and writes.
\<close>

record 'n loaded_shot =
  ls_id :: string
  ls_deviceId :: "'n jsval"
  ls_userTitle :: "'n jsval"

text \<open>
  \<open>CookieSet name value\<close> is \<open>cookies.set(name, value, {signed: true})\<close>, and with no value
  \<open>cookies.set(name)\<close>, which erases the cookie. \<open>SimpleResponse body status\<close> and
  \<open>ErrorResponse label err\<close> are the calls of \<open>simpleResponse\<close> and \<open>errorResponse\<close> of
  \<open>./responses\<close>; the message of an error response is built from the label and the error.
  \<open>StatusSend\<close> is \<open>res.status(n).send(text)\<close>, \<open>Header\<close> and \<open>Send\<close> are \<open>res.header\<close> and
  \<open>res.send\<close>, \<open>ResEnd\<close> is \<open>res.end()\<close>. The remaining effects are the calls to the shot
  store and the proxy's traffic with the upstream server.
\<close>

datatype 'n effect =
    CookieSet string "string option"
  | SimpleResponse string nat
  | ErrorResponse string js_error
  | StatusSend nat string
  | Header string string
  | Send string
  | Redirect string
  | ResEnd
  | ShotInsert "'n shot"
  | ShotUpdate "'n shot"
  | LoadedShotUpdate "'n loaded_shot"
  | SetExpiration string "'n jsval" string int
  | DeleteEverythingForDevice string "string option"
  | UpstreamRequest string "(string \<times> string) list"
  | WriteHead nat string "(string \<times> string) list"
  | Write string

type_synonym 'n outcome = "'n effect list \<times> js_error option"

text \<open>The error of a second response on a request that has been answered.\<close>

definition headers_sent :: js_error where
  "headers_sent = JsError ''Can't set headers after they are sent.''"

section \<open>Requests\<close>

text \<open>
  The fields of an Express request that the handlers read. \<open>req_headers\<close> has
  lower-case names, \<open>req_cookies\<close> is the parsed \<open>Cookie\<close> header, \<open>req_query\<close> the parsed
  query string, \<open>req_body\<close> what the body parsers produced. \<open>req_deviceId\<close> and
  \<open>req_abTests\<close> are the properties the authentication middleware adds.
\<close>

record 'n request =
  req_headers :: "string \<rightharpoonup> string"
  req_cookies :: "string \<rightharpoonup> string"
  req_query :: "string \<rightharpoonup> string"
  params_id :: string
  params_domain :: string
  req_body :: "'n jsval"
  req_deviceId :: "string option"
  req_abTests :: "'n jsval"
  req_backend :: string

text \<open>
  The session's deviceId, where a handler has tested \<open>req.deviceId\<close>: \<open>! req.deviceId\<close> holds
  when the property is unset or the empty string.
\<close>

definition session_deviceId :: "('n, 'z) request_scheme \<Rightarrow> string option" where
  "session_deviceId req =
     (case req_deviceId req of None \<Rightarrow> None | Some d \<Rightarrow> if d = [] then None else Some d)"

section \<open>The server's collaborators\<close>

text \<open>
  Modelled from the spec: \<open>dbschema.getKeygrip()\<close> is not in src/. It is the KeySet of
  section 4.1: an ordered list of keys, newest first; \<open>sign\<close> uses the newest key, \<open>verify\<close>
  accepts a signature made under any key that is held. \<open>hmac\<close> is the keyed MAC, from key
  and data to the signature text.
\<close>

record keygrip =
  keys :: "string list"
  hmac :: "string \<Rightarrow> string \<Rightarrow> string"

definition keygrip_sign :: "keygrip \<Rightarrow> string \<Rightarrow> js_error + string" where
  "keygrip_sign kg data =
     (case keys kg of [] \<Rightarrow> Inl TypeError | k # ks \<Rightarrow> Inr (hmac kg k data))"

definition keygrip_verify :: "keygrip \<Rightarrow> string \<Rightarrow> string \<Rightarrow> bool" where
  "keygrip_verify kg data digest \<longleftrightarrow> list_ex (\<lambda>k. hmac kg k data = digest) (keys kg)"

text \<open>The response of the upstream server to the proxy's request.\<close>

record upstream_response =
  up_statusCode :: nat
  up_statusMessage :: string
  up_headers :: "(string \<times> string) list"
  up_chunks :: "string list"

text \<open>
  What server.js takes from modules that are not in src/ and from the runtime: the key
  store of \<open>dbschema\<close>, the base64-JSON codec of \<open>./b64\<close>, the built-in \<open>JSON.parse\<close> (which
  throws a SyntaxError) and \<open>JSON.stringify\<close> (compact, and with the two-space indent), the
  number coercions, the configuration values the handlers read, the content checks of
  \<open>./contentcheck\<close>, the outcome of each promise of \<open>./users\<close> and \<open>./servershot\<close> (\<open>Inl\<close> a
  rejection, \<open>Inr\<close> the value it resolves to; \<open>None\<close> is \<open>null\<close>), the host that \<open>url.parse\<close>
  finds in a URL, the upstream server's answer to a proxied request, and the text of the
  date thirty days from now.
\<close>

record 'n env =
  getKeygrip :: keygrip
  getTextKeys :: "string list"
  b64EncodeJson :: "'n jsval \<Rightarrow> string"
  b64DecodeJson :: "string \<Rightarrow> js_error + 'n jsval"
  json_parse :: "string \<Rightarrow> js_error + 'n jsval"
  json_stringify :: "'n jsval \<Rightarrow> string"
  json_stringify_pretty :: "'n jsval \<Rightarrow> string"
  numops :: "'n numops"
  sentryPublicDSN :: "'n jsval"
  failSometimes :: nat
  checkContent :: "'n jsval \<Rightarrow> string list"
  checkAttributes :: "'n jsval \<Rightarrow> string \<Rightarrow> string list"
  checkLogin :: "'n jsval \<Rightarrow> 'n jsval \<Rightarrow> 'n jsval \<Rightarrow> js_error + 'n jsval"
  shot_insert :: "'n shot \<Rightarrow> js_error + 'n jsval"
  shot_update :: "'n shot \<Rightarrow> js_error + 'n jsval"
  shot_get :: "string \<Rightarrow> string \<Rightarrow> js_error + 'n loaded_shot option"
  loaded_shot_update :: "'n loaded_shot \<Rightarrow> js_error + 'n jsval"
  shot_getRawValue :: "string \<Rightarrow> js_error + string option"
  shot_setExpiration :: "string \<Rightarrow> 'n jsval \<Rightarrow> string \<Rightarrow> int \<Rightarrow> js_error + 'n jsval"
  shot_deleteEverythingForDevice :: "string \<Rightarrow> string option \<Rightarrow> js_error option"
  urlParse_host :: "string \<Rightarrow> string option"
  upstream :: "string \<Rightarrow> js_error + upstream_response"
  expires_date :: string

section \<open>The signed credential\<close>

text \<open>The longest prefix without \<open>c\<close>, when a \<open>c\<close> follows it, and what comes after that \<open>c\<close>.\<close>

fun split_at :: "char \<Rightarrow> string \<Rightarrow> (string \<times> string) option" where
  "split_at c [] = None"
| "split_at c (x # xs) =
     (if x = c then Some ([], xs)
      else (case split_at c xs of None \<Rightarrow> None | Some (a, b) \<Rightarrow> Some (x # a, b)))"

text \<open>The characters that \<open>.\<close> does not match: line feed and carriage return.\<close>

definition line_terminators :: string where
  "line_terminators = [CHR 0x0A, CHR 0x0D]"

text \<open>
  The regular expression \<open>/^([^:]+):([^;]+);abTests=([^:]+):(.*)$/\<close> of decodeAuthHeader. A
  group \<open>[^:]+\<close> followed by \<open>:\<close> can only be the whole non-empty text before the first colon,
  and likewise for \<open>[^;]+\<close> before \<open>;abTests=\<close>, so the match is found without backtracking.
\<close>

definition auth_header_match :: "string \<Rightarrow> (string \<times> string \<times> string \<times> string) option" where
  "auth_header_match header =
     (case split_at (CHR '':'') header of
        None \<Rightarrow> None
      | Some (deviceId, rest1) \<Rightarrow>
          if deviceId = [] then None
          else (case split_at (CHR '';'') rest1 of
             None \<Rightarrow> None
           | Some (deviceIdSig, rest2) \<Rightarrow>
               if deviceIdSig = [] \<or> take 8 rest2 \<noteq> ''abTests='' then None
               else (case split_at (CHR '':'') (drop 8 rest2) of
                  None \<Rightarrow> None
                | Some (abTestsEncoded, abTestsEncodedSig) \<Rightarrow>
                    if abTestsEncoded = []
                       \<or> list_ex (\<lambda>c. c \<in> set line_terminators) abTestsEncodedSig
                    then None
                    else Some (deviceId, deviceIdSig, abTestsEncoded, abTestsEncodedSig))))"

text \<open>
  The header shape in the words of the specification,
  \<open>{deviceId}:{sig};abTests={b64}:{sig}\<close>, with the constraints the pattern puts on each part.
\<close>

definition header_shape :: "string \<Rightarrow> string \<Rightarrow> string \<Rightarrow> string \<Rightarrow> string \<Rightarrow> bool" where
  "header_shape header d s1 b s2 \<longleftrightarrow>
     header = d @ '':'' @ s1 @ '';abTests='' @ b @ '':'' @ s2
     \<and> d \<noteq> [] \<and> CHR '':'' \<notin> set d
     \<and> s1 \<noteq> [] \<and> CHR '';'' \<notin> set s1
     \<and> b \<noteq> [] \<and> CHR '':'' \<notin> set b
     \<and> set s2 \<inter> set line_terminators = {}"

text \<open>
  The object decodeAuthHeader returns: \<open>{}\<close> has neither property (\<open>abTests\<close> is
  \<open>undefined\<close>), \<open>{deviceId, abTests}\<close> has both.
\<close>

record 'n authInfo =
  ai_deviceId :: "string option"
  ai_abTests :: "'n jsval"

definition empty_authInfo :: "'n authInfo" where
  "empty_authInfo = \<lparr>ai_deviceId = None, ai_abTests = JUndefined\<rparr>"

definition decodeAuthHeader :: "'n env \<Rightarrow> string \<Rightarrow> js_error + 'n authInfo" where
  "decodeAuthHeader env header =
     (let keygrip = getKeygrip env in
      case auth_header_match header of
        None \<Rightarrow> Inr empty_authInfo
      | Some (deviceId, deviceIdSig, abTestsEncoded, abTestsEncodedSig) \<Rightarrow>
          if \<not> (keygrip_verify keygrip deviceId deviceIdSig
                \<and> keygrip_verify keygrip abTestsEncoded abTestsEncodedSig)
          then Inr empty_authInfo
          else (case b64DecodeJson env abTestsEncoded of
                  Inl e \<Rightarrow> Inl e
                | Inr abTests \<Rightarrow> Inr \<lparr>ai_deviceId = Some deviceId, ai_abTests = abTests\<rparr>))"

text \<open>
  \<open>cookies.get(name, {signed: true})\<close> of the cookies package: the value of the cookie, when
  the companion cookie \<open>name.sig\<close> is a signature of \<open>name=value\<close> under one of the keys.
  That the package may also rewrite the signature cookie in the response is left out.
\<close>

definition cookies_get_signed :: "keygrip \<Rightarrow> ('n, 'z) request_scheme \<Rightarrow> string \<Rightarrow> string option" where
  "cookies_get_signed kg req name =
     (case req_cookies req name of
        None \<Rightarrow> None
      | Some v \<Rightarrow>
          (case req_cookies req (name @ ''.sig'') of
             None \<Rightarrow> None
           | Some remote \<Rightarrow>
               if remote \<noteq> [] \<and> keygrip_verify kg (name @ ''='' @ v) remote then Some v
               else None))"

text \<open>The credential read from the two signed cookies, when there is no auth header.\<close>

definition cookie_authInfo :: "'n env \<Rightarrow> ('n, 'z) request_scheme \<Rightarrow> js_error + 'n authInfo" where
  "cookie_authInfo env req =
     (let d = cookies_get_signed (getKeygrip env) req ''user'' in
      case cookies_get_signed (getKeygrip env) req ''abtests'' of
        None \<Rightarrow> Inr \<lparr>ai_deviceId = d, ai_abTests = JUndefined\<rparr>
      | Some abTests \<Rightarrow>
          if abTests = [] then Inr \<lparr>ai_deviceId = d, ai_abTests = JUndefined\<rparr>
          else (case b64DecodeJson env abTests of
                  Inl e \<Rightarrow> Inl e
                | Inr v \<Rightarrow> Inr \<lparr>ai_deviceId = d, ai_abTests = v\<rparr>))"

text \<open>
  The authentication middleware (server.js 237-262): the header \<open>x-pageshot-auth\<close> when it is
  present and not empty, the cookies otherwise. \<open>req.deviceId\<close> is set only from a non-empty
  deviceId; \<open>req.abTests\<close> is \<open>authInfo.abTests || {}\<close>.
\<close>

definition auth_middleware ::
  "'n env \<Rightarrow> ('n, 'z) request_scheme \<Rightarrow> js_error + ('n, 'z) request_scheme" where
  "auth_middleware env req =
     (case (case req_headers req ''x-pageshot-auth'' of
              None \<Rightarrow> cookie_authInfo env req
            | Some authHeader \<Rightarrow>
                if authHeader \<noteq> [] then decodeAuthHeader env authHeader
                else cookie_authInfo env req) of
        Inl e \<Rightarrow> Inl e
      | Inr authInfo \<Rightarrow>
          Inr (req\<lparr>req_deviceId :=
                     (case ai_deviceId authInfo of
                        None \<Rightarrow> req_deviceId req
                      | Some d \<Rightarrow> if d \<noteq> [] then Some d else req_deviceId req),
                   req_abTests :=
                     (if truthy (numops env) (ai_abTests authInfo) then ai_abTests authInfo
                      else JObj [])\<rparr>))"


text \<open>The identity pattern \<open>/^[a-zA-Z0-9_-]+$/\<close> that sendAuthInfo searches for.\<close>

definition alnum_chars :: string where
  "alnum_chars = ''abcdefghijklmnopqrstuvwxyzABCDEFGHIJKLMNOPQRSTUVWXYZ0123456789''"

definition valid_deviceId :: "string \<Rightarrow> bool" where
  "valid_deviceId d \<longleftrightarrow> d \<noteq> [] \<and> list_all (\<lambda>c. c \<in> set (alnum_chars @ ''_-'')) d"

text \<open>The template string of sendAuthInfo (server.js 575).\<close>

definition authHeader_of :: "string \<Rightarrow> string \<Rightarrow> string \<Rightarrow> string \<Rightarrow> string" where
  "authHeader_of d s1 encodedAbTests s2 = d @ '':'' @ s1 @ '';abTests='' @ encodedAbTests @ '':'' @ s2"

definition responseJson :: "'n env \<Rightarrow> 'n jsval \<Rightarrow> string \<Rightarrow> 'n jsval" where
  "responseJson env userAbTests authHeader =
     JObj [(''ok'', JStr ''User created''), (''sentryPublicDSN'', sentryPublicDSN env),
           (''abTests'', userAbTests), (''authHeader'', JStr authHeader)]"

text \<open>
  sendAuthInfo (server.js 565-584). \<open>deviceId.search\<close> exists on strings only. Signing throws
  when no key is held, before any cookie is written.
\<close>

definition sendAuthInfo :: "'n env \<Rightarrow> 'n jsval \<Rightarrow> 'n jsval \<Rightarrow> 'n outcome" where
  "sendAuthInfo env deviceId0 userAbTests =
     (case deviceId0 of
        JStr d \<Rightarrow>
          if \<not> valid_deviceId d then ([], Some (JsError ''Bad deviceId''))
          else
            (let encodedAbTests = b64EncodeJson env userAbTests;
                 keygrip = getKeygrip env in
             case keygrip_sign keygrip d of
               Inl e \<Rightarrow> ([], Some e)
             | Inr s1 \<Rightarrow>
                 (case keygrip_sign keygrip encodedAbTests of
                    Inl e \<Rightarrow> ([], Some e)
                  | Inr s2 \<Rightarrow>
                      ([CookieSet ''user'' (Some d), CookieSet ''abtests'' (Some encodedAbTests),
                        SimpleResponse
                          (json_stringify env
                             (responseJson env userAbTests (authHeader_of d s1 encodedAbTests s2)))
                          200], None)))
      | _ \<Rightarrow> ([], Some TypeError))"

section \<open>POST /api/unload\<close>

text \<open>
  \<open>reason.replace(/[^a-zA-Z0-9]/g, "")\<close> needs \<open>reason\<close> to be a string: on \<open>undefined\<close> and
  \<open>null\<close> the property read throws, on any other value \<open>replace\<close> is not a function. The
  cleaned reason is only logged.
\<close>

definition unload :: "('n, 'z) request_scheme \<Rightarrow> 'n outcome" where
  "unload req =
     (case get_prop (req_body req) ''reason'' of
        Inl e \<Rightarrow> ([], Some e)
      | Inr (JStr reason0) \<Rightarrow>
          (let reason = filter (\<lambda>c. c \<in> set alnum_chars) reason0 in
           ([CookieSet ''user'' None, CookieSet ''user.sig'' None,
             CookieSet ''abtests'' None, CookieSet ''abtests.sig'' None,
             SimpleResponse ''Noted'' 200], None))
      | Inr _ \<Rightarrow> ([], Some TypeError))"

section \<open>POST /api/login\<close>

text \<open>
  \<open>JSON.parse(vars.deviceInfo)\<close> inside the \<open>try\<close>: the argument is converted to a string
  first; a SyntaxError gives \<open>{}\<close>, any other exception is thrown again.
\<close>

definition login_deviceInfo :: "'n env \<Rightarrow> 'n jsval \<Rightarrow> js_error + 'n jsval" where
  "login_deviceInfo env vars =
     (case get_prop vars ''deviceInfo'' of
        Inl e \<Rightarrow> Inl e
      | Inr raw \<Rightarrow>
          (case to_string (numops env) raw of
             Inl e \<Rightarrow> Inl e
           | Inr text \<Rightarrow>
               (case json_parse env text of
                  Inl e \<Rightarrow> if e = SyntaxError then Inr (JObj []) else Inl e
                | Inr v \<Rightarrow> Inr v)))"

text \<open>
  The handler (server.js 587-621). The three branches on \<open>userAbTests\<close> are kept as written:
  \<open>if (userAbTests)\<close>, \<open>else if (! userAbTests)\<close>, \<open>else\<close>. An exception inside the \<open>then\<close>
  callback is caught by the \<open>catch\<close> that follows it.
\<close>

definition login :: "'n env \<Rightarrow> ('n, 'z) request_scheme \<Rightarrow> 'n outcome" where
  \<open>login env req =
     (let vars = req_body req in
      case login_deviceInfo env vars of
        Inl e \<Rightarrow> ([], Some e)
      | Inr deviceInfo \<Rightarrow>
          (case get_prop deviceInfo ''addonVersion'' of
             Inl e \<Rightarrow> ([], Some e)
           | Inr addonVersion \<Rightarrow>
               (case checkLogin env (read_prop vars ''deviceId'') (read_prop vars ''secret'') addonVersion of
                  Inl err \<Rightarrow> ([ErrorResponse ''Error in login'' err], None)
                | Inr userAbTests \<Rightarrow>
                    if truthy (numops env) userAbTests then
                      (case sendAuthInfo env (read_prop vars ''deviceId'') userAbTests of
                         (effs, None) \<Rightarrow> (effs, None)
                       | (effs, Some err) \<Rightarrow> (effs @ [ErrorResponse ''Error in login'' err], None))
                    else if \<not> truthy (numops env) userAbTests then
                      ([SimpleResponse ''{"error": "No such user"}'' 404], None)
                    else
                      ([SimpleResponse ''{"error": "Invalid login"}'' 401], None))))\<close>

text \<open>
  Modelled from the spec: \<open>checkLogin\<close> of \<open>./users\<close> is not in src/. Section 4.4: \<open>login\<close>
  returns null if the device is unknown, null if the secret does not match, and the
  existing AB-test assignment on success. The registry maps a deviceId to its secret and
  its assignment.
\<close>

definition spec_checkLogin ::
  "(string \<rightharpoonup> string \<times> 'n jsval) \<Rightarrow> 'n jsval \<Rightarrow> 'n jsval \<Rightarrow> 'n jsval \<Rightarrow> js_error + 'n jsval" where
  "spec_checkLogin registry deviceId0 secret clientVersion =
     (case deviceId0 of
        JStr d \<Rightarrow>
          (case registry d of
             None \<Rightarrow> Inr JNull
           | Some (stored, assignment) \<Rightarrow>
               if secret = JStr stored then Inr assignment else Inr JNull)
      | _ \<Rightarrow> Inr JNull)"

section \<open>PUT /data/:id/:domain\<close>

text \<open>
  \<open>commands = commands || []\<close>, then \<open>commands.filter((x) => !!x)\<close>, which only an array has;
  the TypeError of any other value is caught by the \<open>catch\<close> of the chain.
\<close>

definition put_reply :: "'n env \<Rightarrow> 'n jsval \<Rightarrow> 'n effect" where
  "put_reply env commands0 =
     (case (if truthy (numops env) commands0 then commands0 else JArr []) of
        JArr xs \<Rightarrow>
          SimpleResponse
            (json_stringify env (JObj [(''updates'', JArr (filter (truthy (numops env)) xs))])) 200
      | _ \<Rightarrow> ErrorResponse ''Error saving Object:'' TypeError)"

text \<open>The promise chain: \<open>shot.insert()\<close>, and \<open>shot.update()\<close> when nothing was inserted.\<close>

definition save_shot :: "'n env \<Rightarrow> 'n shot \<Rightarrow> 'n outcome" where
  "save_shot env shot =
     (case shot_insert env shot of
        Inl err \<Rightarrow> ([ShotInsert shot, ErrorResponse ''Error saving Object:'' err], None)
      | Inr inserted \<Rightarrow>
          if \<not> truthy (numops env) inserted then
            (case shot_update env shot of
               Inl err \<Rightarrow>
                 ([ShotInsert shot, ShotUpdate shot, ErrorResponse ''Error saving Object:'' err],
                  None)
             | Inr commands \<Rightarrow> ([ShotInsert shot, ShotUpdate shot, put_reply env commands], None))
          else ([ShotInsert shot, put_reply env inserted], None))"

definition content_errors :: "'n env \<Rightarrow> 'n jsval \<Rightarrow> string list" where
  "content_errors env bodyObj =
     checkContent env (read_prop bodyObj ''head'')
     @ checkContent env (read_prop bodyObj ''body'')
     @ checkAttributes env (read_prop bodyObj ''headAttrs'') ''head''
     @ checkAttributes env (read_prop bodyObj ''bodyAttrs'') ''body''
     @ checkAttributes env (read_prop bodyObj ''htmlAttrs'') ''html''"

text \<open>
  The handler (server.js 636-714). \<open>draw\<close> is the value of
  \<open>Math.floor(Math.random()*failSometimes)\<close>. The guards come in the order of the source;
  \<open>req.deviceId != bodyObj.deviceId\<close> is the loose comparison. The delay \<open>slowResponse\<close>
  changes no effect and is left out.
\<close>

definition put_data :: "'n env \<Rightarrow> nat \<Rightarrow> ('n, 'z) request_scheme \<Rightarrow> 'n outcome" where
  "put_data env draw req =
     (if failSometimes env \<noteq> 0 \<and> draw \<noteq> 0 then ([ResEnd], None)
      else
        (let bodyObj = req_body req in
         if typeof bodyObj \<noteq> ''object''
         then ([], Some (JsError (''Got unexpected req.body type: '' @ typeof bodyObj)))
         else
           (let shotId = params_id req @ ''/'' @ params_domain req in
            case get_prop bodyObj ''deviceId'' of
              Inl e \<Rightarrow> ([], Some e)
            | Inr bodyDeviceId \<Rightarrow>
                if \<not> truthy (numops env) bodyDeviceId
                then ([SimpleResponse ''No deviceId in body'' 400], None)
                else
                  (case session_deviceId req of
                     None \<Rightarrow> ([SimpleResponse ''Not logged in'' 401], None)
                   | Some d \<Rightarrow>
                       (case loose_eq_str (numops env) d bodyDeviceId of
                          Inl e \<Rightarrow> ([], Some e)
                        | Inr same \<Rightarrow>
                            if \<not> same
                            then ([SimpleResponse
                                     ''Cannot save a page on behalf of another user'' 403], None)
                            else if content_errors env bodyObj \<noteq> []
                            then ([SimpleResponse ''Errors in submission'' 400], None)
                            else save_shot env (Shot d (req_backend req) shotId bodyObj))))))"

section \<open>GET /data/:id/:domain\<close>

text \<open>
  \<open>delete value.name\<close>: the property is removed from an object, nothing happens on another
  value, and \<open>null\<close> has no properties to delete from (a TypeError).
\<close>

fun delete_prop :: "'n jsval \<Rightarrow> string \<Rightarrow> js_error + 'n jsval" where
  "delete_prop JUndefined name = Inl TypeError"
| "delete_prop JNull name = Inl TypeError"
| "delete_prop (JObj kvs) name = Inr (JObj (filter (\<lambda>kv. fst kv \<noteq> name) kvs))"
| "delete_prop v name = Inr v"

text \<open>
  The handler (server.js 716-735). Every exception after \<open>getRawValue\<close> is caught by the
  \<open>catch\<close> of the chain. The handler does not read \<open>req.deviceId\<close>.
\<close>

definition get_data :: "'n env \<Rightarrow> ('n, 'z) request_scheme \<Rightarrow> 'n outcome" where
  "get_data env req =
     (let shotId = params_id req @ ''/'' @ params_domain req in
      case shot_getRawValue env shotId of
        Inl err \<Rightarrow> ([ErrorResponse ''Error serving data:'' err], None)
      | Inr None \<Rightarrow> ([SimpleResponse ''No such shot'' 404], None)
      | Inr (Some stored) \<Rightarrow>
          (case json_parse env stored of
             Inl err \<Rightarrow> ([ErrorResponse ''Error serving data:'' err], None)
           | Inr parsed \<Rightarrow>
               (case delete_prop parsed ''deviceId'' of
                  Inl err \<Rightarrow> ([ErrorResponse ''Error serving data:'' err], None)
                | Inr redacted \<Rightarrow>
                    (let v = json_stringify env redacted in
                     if req_query req ''format'' \<noteq> None then
                       (case json_parse env v of
                          Inl err \<Rightarrow> ([ErrorResponse ''Error serving data:'' err], None)
                        | Inr again \<Rightarrow>
                            ([Header ''Content-Type'' ''application/json'',
                              Send (json_stringify_pretty env again)], None))
                     else ([Header ''Content-Type'' ''application/json'', Send v], None)))))"

section \<open>POST /api/set-title/:id/:domain\<close>

text \<open>
  The handler (server.js 755-779). \<open>Shot.get\<close> resolves to \<open>null\<close> for a shot that does not
  exist, and \<open>shot.deviceId\<close> then throws a TypeError, which the \<open>catch\<close> of the chain turns
  into an error response. After "Not the owner" the first callback returns and the second
  \<open>then\<close> still runs: the response is already sent, so its \<open>simpleResponse\<close> throws, and so
  does the \<open>errorResponse\<close> of the \<open>catch\<close>; that error escapes the handler.
\<close>

definition set_title :: "'n env \<Rightarrow> ('n, 'z) request_scheme \<Rightarrow> 'n outcome" where
  "set_title env req =
     (let shotId = params_id req @ ''/'' @ params_domain req in
      case get_prop (req_body req) ''title'' of
        Inl e \<Rightarrow> ([], Some e)
      | Inr userTitle \<Rightarrow>
          if userTitle = JUndefined then ([SimpleResponse ''No title given'' 400], None)
          else
            (case session_deviceId req of
               None \<Rightarrow> ([SimpleResponse ''Not logged in'' 401], None)
             | Some d \<Rightarrow>
                 (case shot_get env (req_backend req) shotId of
                    Inl err \<Rightarrow> ([ErrorResponse ''Error updating title'' err], None)
                  | Inr None \<Rightarrow> ([ErrorResponse ''Error updating title'' TypeError], None)
                  | Inr (Some shot) \<Rightarrow>
                      if ls_deviceId shot \<noteq> JStr d
                      then ([SimpleResponse ''Not the owner'' 403], Some headers_sent)
                      else
                        (let shot' = shot\<lparr>ls_userTitle := userTitle\<rparr> in
                         case loaded_shot_update env shot' of
                           Inl err \<Rightarrow>
                             ([LoadedShotUpdate shot', ErrorResponse ''Error updating title'' err],
                              None)
                         | Inr updated \<Rightarrow>
                             ([LoadedShotUpdate shot', SimpleResponse ''Updated'' 200], None)))))"

section \<open>POST /api/set-expiration\<close>

definition js_whitespace :: string where
  "js_whitespace = [CHR 0x09, CHR 0x0A, CHR 0x0B, CHR 0x0C, CHR 0x0D, CHR 0x20, CHR 0xA0]"

definition digit_chars :: string where
  "digit_chars = ''0123456789''"

definition digits_value :: "string \<Rightarrow> int" where
  "digits_value z = foldl (\<lambda>n c. 10 * n + (int (of_char c) - 48)) 0 z"

text \<open>
  \<open>parseInt(text, 10)\<close>: leading white space is skipped, one sign is read, and the number is
  the longest run of decimal digits that follows; whatever comes after it is ignored. With
  no digit there the result is NaN, here \<open>None\<close>. The result is the double nearest to the
  integer; \<open>-0\<close> and \<open>0\<close> are both \<open>0\<close> here, as \<open><\<close> and \<open>isNaN\<close> do not tell them apart.
\<close>

definition parseInt10 :: "string \<Rightarrow> int option" where
  "parseInt10 input =
     (let s = dropWhile (\<lambda>c. c \<in> set js_whitespace) input;
          negative = (case s of [] \<Rightarrow> False | c # r \<Rightarrow> c = CHR ''-'');
          s' = (case s of [] \<Rightarrow> [] | c # r \<Rightarrow> if c = CHR ''-'' \<or> c = CHR ''+'' then r else s);
          z = takeWhile (\<lambda>c. c \<in> set digit_chars) s'
      in if z = [] then None else Some ((if negative then - 1 else 1) * digits_value z))"

text \<open>The decimal numeral of a natural number.\<close>

fun decimal :: "nat \<Rightarrow> string" where
  "decimal n =
     (if n < 10 then [digit_chars ! n] else decimal (n div 10) @ [digit_chars ! (n mod 10)])"


section \<open>GET /proxy\<close>

definition PROXY_HEADER_WHITELIST :: "string list" where
  "PROXY_HEADER_WHITELIST =
     [''content-type'', ''content-encoding'', ''content-length'', ''last-modified'', ''etag'',
      ''date'', ''accept-ranges'', ''content-range'', ''retry-after'', ''via'']"

text \<open>
  The properties every object literal inherits from \<open>Object.prototype\<close>: eleven functions
  and \<open>__proto__\<close>, the prototype itself. All of them are truthy.
\<close>

definition object_prototype_properties :: "string list" where
  "object_prototype_properties =
     [''constructor'', ''hasOwnProperty'', ''isPrototypeOf'', ''propertyIsEnumerable'',
      ''toLocaleString'', ''toString'', ''valueOf'', ''__defineGetter__'', ''__defineSetter__'',
      ''__lookupGetter__'', ''__lookupSetter__'', ''__proto__'']"

text \<open>
  \<open>if (PROXY_HEADER_WHITELIST[h])\<close>: the constant is an object literal, and the property read
  finds its own ten properties, all \<open>true\<close>, and the ones it inherits.
\<close>

definition whitelist_lookup :: "string \<Rightarrow> bool" where
  "whitelist_lookup h \<longleftrightarrow>
     h \<in> set PROXY_HEADER_WHITELIST \<or> h \<in> set object_prototype_properties"

text \<open>
  The response headers (server.js 1110-1118). \<open>headers[h] = subres.headers[h]\<close> adds a
  property, except for \<open>__proto__\<close>, where assigning a string does nothing. The two cache
  headers are set last, thirty days ahead.
\<close>

definition proxy_response_headers :: "'n env \<Rightarrow> (string \<times> string) list \<Rightarrow> (string \<times> string) list" where
  "proxy_response_headers env upstream_headers =
     filter (\<lambda>hv. whitelist_lookup (fst hv) \<and> fst hv \<noteq> ''__proto__'') upstream_headers
     @ [(''cache-control'', ''public, max-age=2592000''), (''expires'', expires_date env)]"

definition proxy_request_headers :: "('n, 'z) request_scheme \<Rightarrow> (string \<times> string) list" where
  "proxy_request_headers req =
     concat (map (\<lambda>passthrough.
                    case req_headers req passthrough of
                      None \<Rightarrow> []
                    | Some v \<Rightarrow> if v = [] then [] else [(passthrough, v)])
                 [''user-agent'', ''if-modified-since'', ''if-none-match''])"

text \<open>
  The handler (server.js 1081-1135). \<open>new Buffer(url, 'utf8')\<close> throws when there is no
  \<open>url\<close> parameter; a missing \<open>sig\<close> verifies as false; \<open>url.host.split\<close> throws when the
  URL has no host.
\<close>

definition proxy :: "'n env \<Rightarrow> ('n, 'z) request_scheme \<Rightarrow> 'n outcome" where
  "proxy env req =
     (case req_query req ''url'' of
        None \<Rightarrow> ([], Some TypeError)
      | Some url \<Rightarrow>
          (let isValid = (case req_query req ''sig'' of
                            None \<Rightarrow> False
                          | Some sig \<Rightarrow> keygrip_verify (getKeygrip env) url sig) in
           if \<not> isValid then ([SimpleResponse ''Bad signature'' 403], None)
           else
             (case urlParse_host env url of
                None \<Rightarrow> ([], Some TypeError)
              | Some host \<Rightarrow>
                  (case upstream env url of
                     Inl err \<Rightarrow>
                       ([UpstreamRequest url (proxy_request_headers req),
                         ErrorResponse ''Error fetching:'' err], None)
                   | Inr subres \<Rightarrow>
                       ([UpstreamRequest url (proxy_request_headers req),
                         WriteHead (up_statusCode subres) (up_statusMessage subres)
                           (proxy_response_headers env (up_headers subres))]
                        @ map Write (up_chunks subres) @ [ResEnd], None)))))"

section \<open>POST /leave\<close>

text \<open>
  The handler (leave-screenshots/server.js 21-31), after the CSRF check has passed. The
  403 branch does not return: \<open>deleteEverythingForDevice\<close> is called with whatever
  \<open>req.deviceId\<close> holds, and the response that follows a sent 403 fails.
\<close>

definition leave :: "'n env \<Rightarrow> ('n, 'z) request_scheme \<Rightarrow> 'n outcome" where
  "leave env req =
     (let refused = (session_deviceId req = None);
          first = (if refused
                   then [StatusSend 403 ''You must have the addon installed to leave'']
                   else []);
          call = DeleteEverythingForDevice (req_backend req) (req_deviceId req) in
      case shot_deleteEverythingForDevice env (req_backend req) (req_deviceId req) of
        None \<Rightarrow>
          if refused then (first @ [call], Some headers_sent)
          else (first @ [call, Redirect ''/leave-screenshots/?complete''], None)
      | Some e \<Rightarrow>
          if refused then (first @ [call], Some headers_sent)
          else (first @ [call, StatusSend 500 ''An error occurred''], None))"

section \<open>The middleware chain\<close>


section \<open>Example inputs\<close>

text \<open>
  A small server for the concrete instances below: two keys, a MAC that is not
  cryptographic, and codecs that are tables over the few values used.
\<close>

definition example_keygrip :: keygrip where
  "example_keygrip =
     \<lparr>keys = [''key-2017'', ''key-2016''],
      hmac = (\<lambda>k data. ''sig_'' @ k @ ''_'' @ filter (\<lambda>c. c \<in> set alnum_chars) data)\<rparr>"

definition example_numops :: "int numops" where
  "example_numops =
     \<lparr>num_truthy = (\<lambda>n. n \<noteq> 0),
      num_to_string = (\<lambda>n. if n < 0 then ''-'' @ decimal (nat (- n)) else decimal (nat n)),
      bool_to_num = (\<lambda>b. if b then 1 else 0),
      str_eq_num = (\<lambda>s n. parseInt10 s = Some n)\<rparr>"

definition example_stored :: string where
  \<open>example_stored = ''{"deviceId":"abc123","url":"u"}''\<close>

definition example_compact :: string where
  \<open>example_compact = ''{"url":"u"}''\<close>

definition example_pretty :: string where
  \<open>example_pretty = ''{'' @ [CHR 0x0A] @ ''  "url": "u"'' @ [CHR 0x0A] @ ''}''\<close>

definition example_json_parse :: "string \<Rightarrow> js_error + int jsval" where
  "example_json_parse text =
     (if text = example_stored
      then Inr (JObj [(''deviceId'', JStr ''abc123''), (''url'', JStr ''u'')])
      else if text = example_compact \<or> text = example_pretty
      then Inr (JObj [(''url'', JStr ''u'')])
      else if text = ''{}'' then Inr (JObj [])
      else Inl SyntaxError)"

definition example_registry :: "string \<rightharpoonup> string \<times> int jsval" where
  "example_registry = [''abc123'' \<mapsto> (''s3cr3t'', JObj [])]"

definition example_upstream :: upstream_response where
  "example_upstream =
     \<lparr>up_statusCode = 200, up_statusMessage = ''OK'',
      up_headers = [(''content-type'', ''image/png''), (''constructor'', ''x''),
                    (''set-cookie'', ''a=b'')],
      up_chunks = [''PNG'']\<rparr>"

definition example_env :: "int env" where
  "example_env =
     \<lparr>getKeygrip = example_keygrip,
      getTextKeys = [''key-2017'', ''key-2016''],
      b64EncodeJson = (\<lambda>v. if v = JObj [] then ''e30'' else ''bnVsbA''),
      b64DecodeJson = (\<lambda>t. if t = ''e30'' then Inr (JObj [])
                            else if t = ''bnVsbA'' then Inr JNull else Inl SyntaxError),
      json_parse = example_json_parse,
      json_stringify = (\<lambda>v. if v = JObj [(''url'', JStr ''u'')] then example_compact else ''{}''),
      json_stringify_pretty =
        (\<lambda>v. if v = JObj [(''url'', JStr ''u'')] then example_pretty else ''{}''),
      numops = example_numops,
      sentryPublicDSN = JStr [],
      failSometimes = 0,
      checkContent = (\<lambda>v. []),
      checkAttributes = (\<lambda>v tag. []),
      checkLogin = spec_checkLogin example_registry,
      shot_insert = (\<lambda>shot. Inr (JArr [])),
      shot_update = (\<lambda>shot. Inr (JArr [])),
      shot_get = (\<lambda>b i. if i = ''xyz/example.com''
                         then Inr (Some \<lparr>ls_id = i, ls_deviceId = JStr ''abc123'',
                                         ls_userTitle = JUndefined\<rparr>)
                         else Inr None),
      loaded_shot_update = (\<lambda>shot. Inr JUndefined),
      shot_getRawValue = (\<lambda>i. if i = ''xyz/example.com'' then Inr (Some example_stored)
                               else Inr None),
      shot_setExpiration = (\<lambda>b i d n. Inr (JBool True)),
      shot_deleteEverythingForDevice = (\<lambda>b d. None),
      urlParse_host = (\<lambda>u. Some ''example.com''),
      upstream = (\<lambda>u. Inr example_upstream),
      expires_date = ''Wed, 02 Dec 2026 00:00:00 GMT''\<rparr>"

definition blank_request :: "int request" where
  "blank_request =
     \<lparr>req_headers = Map.empty, req_cookies = Map.empty, req_query = Map.empty,
      params_id = ''xyz'', params_domain = ''example.com'', req_body = JObj [],
      req_deviceId = None, req_abTests = JObj [], req_backend = ''https://pageshot.example''\<rparr>"

section \<open>Properties\<close>

subsection \<open>The auth header pattern\<close>

lemma split_at_build: "c \<notin> set a \<Longrightarrow> split_at c (a @ c # b) = Some (a, b)"
  by (induction a) auto

lemma split_at_SomeD: "split_at c s = Some (a, b) \<Longrightarrow> s = a @ c # b \<and> c \<notin> set a"
proof (induction s arbitrary: a)
  case Nil
  then show ?case by simp
next
  case (Cons x xs)
  show ?case
  proof (cases "x = c")
    case True
    with Cons.prems show ?thesis by simp
  next
    case False
    with Cons.prems obtain a' where s: "split_at c xs = Some (a', b)" and a: "a = x # a'"
      by (cases "split_at c xs") auto
    from Cons.IH [OF s] False a show ?thesis by simp
  qed
qed

lemma split_at_Some_iff: "split_at c s = Some (a, b) \<longleftrightarrow> s = a @ c # b \<and> c \<notin> set a"
  using split_at_SomeD [of c s a b] split_at_build [of c a b] by blast

lemma line_terminators_iff:
  "list_ex (\<lambda>c. c \<in> set line_terminators) s \<longleftrightarrow> set s \<inter> set line_terminators \<noteq> {}"
  by (auto simp: list_ex_iff)

lemma match_iff_shape:
  "auth_header_match h = Some (d, s1, b, s2) \<longleftrightarrow> header_shape h d s1 b s2"
proof
  assume m: "auth_header_match h = Some (d, s1, b, s2)"
  then obtain r1 where 1: "split_at (CHR '':'') h = Some (d, r1)" and d: "d \<noteq> []"
    by (auto simp: auth_header_match_def split: option.splits if_splits)
  with m obtain r2 where 2: "split_at (CHR '';'') r1 = Some (s1, r2)" and s1: "s1 \<noteq> []"
      and t: "take 8 r2 = ''abTests=''"
    by (auto simp: auth_header_match_def split: option.splits if_splits)
  with m 1 d have 3: "split_at (CHR '':'') (drop 8 r2) = Some (b, s2)" and b: "b \<noteq> []"
      and lt: "\<not> list_ex (\<lambda>c. c \<in> set line_terminators) s2"
    by (auto simp: auth_header_match_def split: option.splits if_splits)
  have "r2 = take 8 r2 @ drop 8 r2" by simp
  with t have r2: "r2 = ''abTests='' @ drop 8 r2" by simp
  from 1 have h: "h = d @ CHR '':'' # r1" "CHR '':'' \<notin> set d" by (simp_all add: split_at_Some_iff)
  from 2 have r1: "r1 = s1 @ CHR '';'' # r2" "CHR '';'' \<notin> set s1" by (simp_all add: split_at_Some_iff)
  from 3 have r3: "drop 8 r2 = b @ CHR '':'' # s2" "CHR '':'' \<notin> set b" by (simp_all add: split_at_Some_iff)
  have "h = d @ '':'' @ s1 @ '';abTests='' @ b @ '':'' @ s2"
    using h(1) r1(1) r2 r3(1) by simp
  then show "header_shape h d s1 b s2"
    using d s1 b h(2) r1(2) r3(2) lt by (simp add: header_shape_def line_terminators_iff)
next
  assume "header_shape h d s1 b s2"
  then have h: "h = d @ CHR '':'' # (s1 @ CHR '';'' # (''abTests='' @ (b @ CHR '':'' # s2)))"
    and c: "d \<noteq> []" "CHR '':'' \<notin> set d" "s1 \<noteq> []" "CHR '';'' \<notin> set s1" "b \<noteq> []" "CHR '':'' \<notin> set b"
    "set s2 \<inter> set line_terminators = {}"
    by (simp_all add: header_shape_def)
  show "auth_header_match h = Some (d, s1, b, s2)"
    unfolding auth_header_match_def h
    using c by (simp add: split_at_build line_terminators_iff)
qed


lemma colon_not_id_char: "CHR '':'' \<notin> set (alnum_chars @ ''_-'')"
  by (simp add: alnum_chars_def)

subsection \<open>The signed credential\<close>

lemma valid_deviceId_no_colon: "valid_deviceId d \<Longrightarrow> d \<noteq> [] \<and> CHR '':'' \<notin> set d"
  unfolding valid_deviceId_def list_all_iff using colon_not_id_char by blast

lemma authHeader_shape:
  "d \<noteq> [] \<Longrightarrow> CHR '':'' \<notin> set d \<Longrightarrow> s1 \<noteq> [] \<Longrightarrow> CHR '';'' \<notin> set s1 \<Longrightarrow> b \<noteq> [] \<Longrightarrow>
   CHR '':'' \<notin> set b \<Longrightarrow> set s2 \<inter> set line_terminators = {} \<Longrightarrow>
   auth_header_match (authHeader_of d s1 b s2) = Some (d, s1, b, s2)"
  by (simp add: match_iff_shape header_shape_def authHeader_of_def)

text \<open>
  C1. Credential round trip. For a deviceId that matches the identity pattern and an
  AB-test value that the base64-JSON codec reproduces, sendAuthInfo answers with the auth
  header \<open>deviceId:sig;abTests=b64:sig\<close>, and decodeAuthHeader gives back exactly that
  deviceId and that AB-test value from it. What is assumed of the parts that are not in
  src/: a key is held; the MAC of the deviceId is not empty and has no semicolon; the
  encoded AB tests are not empty and have no colon; their MAC has no line terminator.
\<close>

theorem credential_round_trip:
  assumes "valid_deviceId d"
    and "keys (getKeygrip env) = k # ks"
    and "hmac (getKeygrip env) k d = s1" and "s1 \<noteq> []" and "CHR '';'' \<notin> set s1"
    and "b64EncodeJson env a = enc" and "enc \<noteq> []" and "CHR '':'' \<notin> set enc"
    and "hmac (getKeygrip env) k enc = s2" and "set s2 \<inter> set line_terminators = {}"
    and "b64DecodeJson env enc = Inr a"
  shows "sendAuthInfo env (JStr d) a =
           ([CookieSet ''user'' (Some d), CookieSet ''abtests'' (Some enc),
             SimpleResponse
               (json_stringify env (responseJson env a (authHeader_of d s1 enc s2))) 200], None)
         \<and> decodeAuthHeader env (authHeader_of d s1 enc s2)
             = Inr \<lparr>ai_deviceId = Some d, ai_abTests = a\<rparr>"
proof
  show "sendAuthInfo env (JStr d) a =
           ([CookieSet ''user'' (Some d), CookieSet ''abtests'' (Some enc),
             SimpleResponse
               (json_stringify env (responseJson env a (authHeader_of d s1 enc s2))) 200], None)"
    using assms by (simp add: sendAuthInfo_def keygrip_sign_def Let_def)
next
  have m: "auth_header_match (authHeader_of d s1 enc s2) = Some (d, s1, enc, s2)"
    using assms valid_deviceId_no_colon [of d] by (intro authHeader_shape) simp_all
  have v1: "keygrip_verify (getKeygrip env) d s1"
    using assms by (simp add: keygrip_verify_def)
  have v2: "keygrip_verify (getKeygrip env) enc s2"
    using assms by (simp add: keygrip_verify_def)
  show "decodeAuthHeader env (authHeader_of d s1 enc s2)
             = Inr \<lparr>ai_deviceId = Some d, ai_abTests = a\<rparr>"
    using m v1 v2 assms(11) by (simp add: decodeAuthHeader_def Let_def)
qed

lemma decode_nonempty_shape:
  assumes "decodeAuthHeader env h \<noteq> Inr empty_authInfo"
  shows "\<exists>d s1 b s2. header_shape h d s1 b s2 \<and> keygrip_verify (getKeygrip env) d s1
           \<and> keygrip_verify (getKeygrip env) b s2"
proof (cases "auth_header_match h")
  case None
  with assms show ?thesis by (simp add: decodeAuthHeader_def)
next
  case (Some t)
  obtain d s1 b s2 where t: "t = (d, s1, b, s2)" by (cases t) auto
  with Some have "header_shape h d s1 b s2" by (simp add: match_iff_shape)
  moreover have "keygrip_verify (getKeygrip env) d s1 \<and> keygrip_verify (getKeygrip env) b s2"
    using assms Some t by (auto simp: decodeAuthHeader_def Let_def split: if_splits)
  ultimately show ?thesis by blast
qed

lemma no_abTests_prefix:
  assumes "CHR ''='' \<notin> set u"
  shows "take 8 (u @ CHR '';'' # r) \<noteq> ''abTests=''"
proof
  assume e: "take 8 (u @ CHR '';'' # r) = ''abTests=''"
  show False
  proof (cases "8 \<le> length u")
    case True
    then have "take 8 (u @ CHR '';'' # r) = take 8 u" by simp
    with e have "take 8 u = ''abTests=''" by simp
    then have "CHR ''='' \<in> set (take 8 u)" by simp
    then have "CHR ''='' \<in> set u" by (rule in_set_takeD)
    with assms show False by simp
  next
    case False
    then have "(take 8 (u @ CHR '';'' # r)) ! length u = CHR '';''"
      by (simp add: nth_append)
    moreover from False have "length u < length (take 8 (u @ CHR '';'' # r))" by simp
    ultimately have "CHR '';'' \<in> set (take 8 (u @ CHR '';'' # r))"
      using nth_mem [of "length u" "take 8 (u @ CHR '';'' # r)"] by simp
    with e show False by simp
  qed
qed



lemma tampered_deviceIdSig_match:
  assumes "d \<noteq> []" "CHR '':'' \<notin> set d" "i < length s1" "CHR '';'' \<notin> set s1" "CHR ''='' \<notin> set s1"
    "b \<noteq> []" "CHR '':'' \<notin> set b" "set s2 \<inter> set line_terminators = {}"
  shows "auth_header_match (authHeader_of d (s1[i := c]) b s2) = None
       \<or> auth_header_match (authHeader_of d (s1[i := c]) b s2) = Some (d, s1[i := c], b, s2)"
proof (cases "c = CHR '';''")
  case False
  with assms have "CHR '';'' \<notin> set (s1[i := c])" "s1[i := c] \<noteq> []"
    by (auto dest: set_update_subset_insert [THEN subsetD])
  with assms show ?thesis by (simp add: authHeader_shape)
next
  case True
  let ?u = "drop (Suc i) s1"
  have t: "s1[i := c] = take i s1 @ CHR '';'' # ?u"
    using assms(3) True by (simp add: upd_conv_take_nth_drop)
  have n1: "CHR '';'' \<notin> set (take i s1)" using assms(4) by (auto dest: in_set_takeD)
  have n2: "CHR ''='' \<notin> set ?u" using assms(5) by (auto dest: in_set_dropD)
  have "authHeader_of d (s1[i := c]) b s2
      = d @ CHR '':'' # (take i s1 @ CHR '';'' # (?u @ CHR '';'' # (''abTests='' @ b @ '':'' @ s2)))"
    by (simp add: authHeader_of_def t)
  also have "auth_header_match \<dots> = None"
    unfolding auth_header_match_def
    using assms(1,2) n1 no_abTests_prefix [OF n2, of "''abTests='' @ b @ '':'' @ s2"]
    by (simp only: split_at_build option.case prod.case if_False if_True simp_thms)
  finally have "auth_header_match (authHeader_of d (s1[i := c]) b s2) = None" .
  then show ?thesis by simp
qed

lemma tampered_abTestsSig_match:
  assumes "d \<noteq> []" "CHR '':'' \<notin> set d" "s1 \<noteq> []" "CHR '';'' \<notin> set s1"
    "b \<noteq> []" "CHR '':'' \<notin> set b"
  shows "auth_header_match (authHeader_of d s1 b s2') = None
       \<or> auth_header_match (authHeader_of d s1 b s2') = Some (d, s1, b, s2')"
proof (cases "set s2' \<inter> set line_terminators = {}")
  case True
  with assms show ?thesis by (simp add: authHeader_shape)
next
  case False
  then have lt: "list_ex (\<lambda>c. c \<in> set line_terminators) s2'"
    by (simp add: line_terminators_iff)
  have "authHeader_of d s1 b s2'
      = d @ CHR '':'' # (s1 @ CHR '';'' # (''abTests='' @ (b @ CHR '':'' # s2')))"
    by (simp add: authHeader_of_def)
  also have "auth_header_match \<dots> = None"
    unfolding auth_header_match_def using assms lt by (simp add: split_at_build)
  finally show ?thesis by simp
qed


theorem credential_round_trip_witness:
  "sendAuthInfo example_env (JStr ''abc123'') (JObj []) =
     ([CookieSet ''user'' (Some ''abc123''), CookieSet ''abtests'' (Some ''e30''),
       SimpleResponse
         (json_stringify example_env
            (responseJson example_env (JObj [])
               (authHeader_of ''abc123'' ''sig_key-2017_abc123'' ''e30'' ''sig_key-2017_e30'')))
         200], None)
   \<and> decodeAuthHeader example_env
         (authHeader_of ''abc123'' ''sig_key-2017_abc123'' ''e30'' ''sig_key-2017_e30'')
       = Inr \<lparr>ai_deviceId = Some ''abc123'', ai_abTests = JObj []\<rparr>"
  by (rule credential_round_trip [where k = "''key-2017''" and ks = "[''key-2016'']"])
     (simp_all add: valid_deviceId_def alnum_chars_def example_env_def example_keygrip_def
        line_terminators_def)

text \<open>
  C2. Credential decoding fails closed. A header that does not have the shape
  \<open>{deviceId}:{sig};abTests={b64}:{sig}\<close>, or one of whose two signatures does not verify,
  decodes to the empty credential, without an exception; the middleware then leaves the
  request without a deviceId and with the empty AB tests \<open>{}\<close>. In particular: a
  well-formed header in which one character of the deviceId signature is replaced, or in
  which the AB-test signature is replaced, decodes to the empty credential whenever the
  new signature is not one that a held key makes for the same data.
\<close>

theorem decodeAuthHeader_fails_closed:
  "(\<not> (\<exists>d s1 b s2. header_shape h d s1 b s2 \<and> keygrip_verify (getKeygrip env) d s1
          \<and> keygrip_verify (getKeygrip env) b s2)
      \<longrightarrow> decodeAuthHeader env h = Inr empty_authInfo
          \<and> (h \<noteq> [] \<and> req_headers req ''x-pageshot-auth'' = Some h
               \<longrightarrow> auth_middleware env req = Inr (req\<lparr>req_abTests := JObj []\<rparr>)))
   \<and> (header_shape (authHeader_of d s1 b s2) d s1 b s2 \<and> CHR ''='' \<notin> set s1 \<and> i < length s1
        \<and> \<not> keygrip_verify (getKeygrip env) d (s1[i := c])
      \<longrightarrow> decodeAuthHeader env (authHeader_of d (s1[i := c]) b s2) = Inr empty_authInfo)
   \<and> (header_shape (authHeader_of d s1 b s2) d s1 b s2
        \<and> \<not> keygrip_verify (getKeygrip env) b s2'
      \<longrightarrow> decodeAuthHeader env (authHeader_of d s1 b s2') = Inr empty_authInfo)"
proof (intro conjI impI)
  assume n: "\<not> (\<exists>d s1 b s2. header_shape h d s1 b s2 \<and> keygrip_verify (getKeygrip env) d s1
          \<and> keygrip_verify (getKeygrip env) b s2)"
  then show e: "decodeAuthHeader env h = Inr empty_authInfo"
    using decode_nonempty_shape [of env h] by blast
  assume "h \<noteq> [] \<and> req_headers req ''x-pageshot-auth'' = Some h"
  then show "auth_middleware env req = Inr (req\<lparr>req_abTests := JObj []\<rparr>)"
    using e by (simp add: auth_middleware_def empty_authInfo_def)
next
  assume a: "header_shape (authHeader_of d s1 b s2) d s1 b s2 \<and> CHR ''='' \<notin> set s1 \<and> i < length s1
        \<and> \<not> keygrip_verify (getKeygrip env) d (s1[i := c])"
  then have "auth_header_match (authHeader_of d (s1[i := c]) b s2) = None
       \<or> auth_header_match (authHeader_of d (s1[i := c]) b s2) = Some (d, s1[i := c], b, s2)"
    by (intro tampered_deviceIdSig_match) (simp_all add: header_shape_def)
  with a show "decodeAuthHeader env (authHeader_of d (s1[i := c]) b s2) = Inr empty_authInfo"
    by (auto simp: decodeAuthHeader_def)
next
  assume a: "header_shape (authHeader_of d s1 b s2) d s1 b s2
        \<and> \<not> keygrip_verify (getKeygrip env) b s2'"
  then have "auth_header_match (authHeader_of d s1 b s2') = None
       \<or> auth_header_match (authHeader_of d s1 b s2') = Some (d, s1, b, s2')"
    by (intro tampered_abTestsSig_match) (simp_all add: header_shape_def)
  with a show "decodeAuthHeader env (authHeader_of d s1 b s2') = Inr empty_authInfo"
    by (auto simp: decodeAuthHeader_def)
qed


theorem decodeAuthHeader_fails_closed_witness:
  "decodeAuthHeader example_env ''abc123:forged'' = Inr empty_authInfo
   \<and> auth_middleware example_env
         (blank_request\<lparr>req_headers := [''x-pageshot-auth'' \<mapsto> ''abc123:forged'']\<rparr>)
       = Inr (blank_request\<lparr>req_headers := [''x-pageshot-auth'' \<mapsto> ''abc123:forged''],
                            req_abTests := JObj []\<rparr>)
   \<and> decodeAuthHeader example_env
         (authHeader_of ''abc123'' ''Xig_key-2017_abc123'' ''e30'' ''sig_key-2017_e30'')
       = Inr empty_authInfo
   \<and> decodeAuthHeader example_env
         (authHeader_of ''abc123'' ''sig_key-2017_abc123'' ''e30'' ''sig_key-2017_e3X'')
       = Inr empty_authInfo"
proof -
  let ?req = "blank_request\<lparr>req_headers := [''x-pageshot-auth'' \<mapsto> ''abc123:forged'']\<rparr>"
  have 1: "\<not> (\<exists>d s1 b s2. header_shape ''abc123:forged'' d s1 b s2
              \<and> keygrip_verify (getKeygrip example_env) d s1
              \<and> keygrip_verify (getKeygrip example_env) b s2)"
    by (simp add: match_iff_shape [symmetric] auth_header_match_def)
  have 2: "header_shape
             (authHeader_of ''abc123'' ''sig_key-2017_abc123'' ''e30'' ''sig_key-2017_e30'')
             ''abc123'' ''sig_key-2017_abc123'' ''e30'' ''sig_key-2017_e30''"
    by (simp add: header_shape_def authHeader_of_def line_terminators_def)
  have 3: "\<not> keygrip_verify (getKeygrip example_env) ''abc123''
                (''sig_key-2017_abc123''[0 := CHR ''X''])"
    by (simp add: keygrip_verify_def example_env_def example_keygrip_def alnum_chars_def)
  have 4: "\<not> keygrip_verify (getKeygrip example_env) ''e30'' ''sig_key-2017_e3X''"
    by (simp add: keygrip_verify_def example_env_def example_keygrip_def alnum_chars_def)
  have 5: "req_headers ?req ''x-pageshot-auth'' = Some ''abc123:forged''"
    by simp
  show ?thesis
    using decodeAuthHeader_fails_closed
            [of "''abc123:forged''" example_env ?req "''abc123''" "''sig_key-2017_abc123''"
                "''e30''" "''sig_key-2017_e30''" 0 "CHR ''X''" "''sig_key-2017_e3X''"]
          1 2 3 4 5
    by simp
qed

subsection \<open>Saving a shot\<close>







text \<open>
  The comparison \<open>req.deviceId != bodyObj.deviceId\<close> is loose: a body deviceId that is the
  array \<open>["abc123"]\<close> compares equal to the session deviceId \<open>abc123\<close>, and the shot is
  saved, owned by the session deviceId.
\<close>

lemma put_data_loose_comparison:
  "put_data example_env 0
     (blank_request\<lparr>req_body := JObj [(''deviceId'', JArr [JStr ''abc123''])],
                     req_deviceId := Some ''abc123''\<rparr>)
   = ([ShotInsert (Shot ''abc123'' ''https://pageshot.example'' ''xyz/example.com''
                     (JObj [(''deviceId'', JArr [JStr ''abc123''])])),
       SimpleResponse ''{}'' 200], None)"
  by (simp add: put_data_def blank_request_def example_env_def example_numops_def
        session_deviceId_def content_errors_def save_shot_def put_reply_def)

subsection \<open>Where the session's deviceId comes from\<close>










text \<open>
  Without a session POST /leave sends its 403 and goes on: \<open>deleteEverythingForDevice\<close> is
  called with no deviceId.
\<close>

lemma leave_without_session:
  "leave example_env blank_request
   = ([StatusSend 403 ''You must have the addon installed to leave'',
       DeleteEverythingForDevice ''https://pageshot.example'' None], Some headers_sent)"
  by (simp add: leave_def blank_request_def example_env_def session_deviceId_def)

subsection \<open>Login\<close>

lemma sendAuthInfo_status:
  "sendAuthInfo env d a = (effs, e) \<Longrightarrow> SimpleResponse msg status \<in> set effs \<Longrightarrow> status = 200"
  by (auto simp: sendAuthInfo_def Let_def split: jsval.splits if_splits sum.splits)

text \<open>
  C5 asks for two distinct failures of POST /api/login: 404 "No such user" for an unknown
  device and 401 "Invalid login" for a wrong secret. The handler does not do that. The
  device \<open>abc123\<close> is registered with the secret \<open>s3cr3t\<close>; a login with the secret \<open>wrong\<close>
  is answered 404 "No such user". The branch that sends 401 comes after \<open>if (userAbTests)\<close>
  and \<open>else if (! userAbTests)\<close>, so no request reaches it: the handler never answers 401.
\<close>

theorem login_wrong_secret_is_no_such_user:
  \<open>example_registry ''abc123'' = Some (''s3cr3t'', JObj [])
   \<and> login example_env
         (blank_request\<lparr>req_body :=
            JObj [(''deviceId'', JStr ''abc123''), (''secret'', JStr ''wrong'')]\<rparr>)
       = ([SimpleResponse ''{"error": "No such user"}'' 404], None)
   \<and> (\<forall>(env :: 'a env) (req :: 'a request) msg.
         SimpleResponse msg 401 \<notin> set (fst (login env req)))\<close>
proof (intro conjI allI)
  show "example_registry ''abc123'' = Some (''s3cr3t'', JObj [])"
    by (simp add: example_registry_def)
  show \<open>login example_env
         (blank_request\<lparr>req_body :=
            JObj [(''deviceId'', JStr ''abc123''), (''secret'', JStr ''wrong'')]\<rparr>)
       = ([SimpleResponse ''{"error": "No such user"}'' 404], None)\<close>
    by (simp add: login_def login_deviceInfo_def read_prop_def spec_checkLogin_def
          blank_request_def example_env_def example_numops_def example_registry_def
          example_json_parse_def example_stored_def example_compact_def example_pretty_def)
next
  fix env :: "'a env" and req :: "'a request" and msg
  show "SimpleResponse msg 401 \<notin> set (fst (login env req))"
    by (auto simp: login_def Let_def dest: sendAuthInfo_status
          split: sum.splits if_splits prod.splits option.splits)
qed

subsection \<open>Setting a title\<close>

text \<open>
  C9 asks for the not-found outcome when POST /api/set-title names a shot that does not
  exist. The handler does not do that: \<open>Shot.get\<close> resolves to \<open>null\<close>, reading \<open>shot.deviceId\<close>
  throws, and the request is answered by the error response "Error updating title". The
  handler has no 404 answer at all.
\<close>

theorem set_title_missing_shot_is_error:
  "shot_get example_env ''https://pageshot.example'' ''nosuch/example.com'' = Inr None
   \<and> set_title example_env
         (blank_request\<lparr>params_id := ''nosuch'',
                         req_body := JObj [(''title'', JStr ''New title'')],
                         req_deviceId := Some ''abc123''\<rparr>)
       = ([ErrorResponse ''Error updating title'' TypeError], None)
   \<and> (\<forall>(env :: 'a env) (req :: 'a request) msg.
         SimpleResponse msg 404 \<notin> set (fst (set_title env req)))"
proof (intro conjI allI)
  show "shot_get example_env ''https://pageshot.example'' ''nosuch/example.com'' = Inr None"
    by (simp add: example_env_def)
  show "set_title example_env
         (blank_request\<lparr>params_id := ''nosuch'',
                         req_body := JObj [(''title'', JStr ''New title'')],
                         req_deviceId := Some ''abc123''\<rparr>)
       = ([ErrorResponse ''Error updating title'' TypeError], None)"
    by (simp add: set_title_def session_deviceId_def blank_request_def example_env_def)
next
  fix env :: "'a env" and req :: "'a request" and msg
  show "SimpleResponse msg 404 \<notin> set (fst (set_title env req))"
    by (auto simp: set_title_def Let_def split: sum.splits if_splits option.splits)
qed

subsection \<open>The proxy\<close>

lemma proxy_bad_signature:
  assumes "req_query req ''url'' = Some url"
    and "\<forall>sig. req_query req ''sig'' = Some sig \<longrightarrow> \<not> keygrip_verify (getKeygrip env) url sig"
  shows "proxy env req = ([SimpleResponse ''Bad signature'' 403], None)"
  using assms by (auto simp: proxy_def Let_def split: option.splits)

lemma proxy_response_header_names:
  "(h, v) \<in> set (proxy_response_headers env hs) \<Longrightarrow>
     h \<in> set PROXY_HEADER_WHITELIST \<or> h \<in> set object_prototype_properties
     \<or> h = ''cache-control'' \<or> h = ''expires''"
  by (auto simp: proxy_response_headers_def whitelist_lookup_def)

text \<open>
  C8 asks that GET /proxy drops every upstream header outside the whitelist. The handler
  does not do that for a header named like a property of \<open>Object.prototype\<close>: the lookup
  \<open>PROXY_HEADER_WHITELIST[h]\<close> finds the inherited property. An upstream response with the
  headers content-type, constructor and set-cookie, fetched through a correctly signed
  URL, is forwarded with content-type and constructor (and the two cache headers); only
  set-cookie is dropped.
\<close>

theorem proxy_forwards_constructor_header:
  "''constructor'' \<notin> set PROXY_HEADER_WHITELIST
   \<and> keygrip_verify (getKeygrip example_env) ''http://example.com/a.png''
         ''sig_key-2017_httpexamplecomapng''
   \<and> proxy example_env
         (blank_request\<lparr>req_query := [''url'' \<mapsto> ''http://example.com/a.png'',
                                        ''sig'' \<mapsto> ''sig_key-2017_httpexamplecomapng'']\<rparr>)
       = ([UpstreamRequest ''http://example.com/a.png'' [],
           WriteHead 200 ''OK''
             [(''content-type'', ''image/png''), (''constructor'', ''x''),
              (''cache-control'', ''public, max-age=2592000''),
              (''expires'', ''Wed, 02 Dec 2026 00:00:00 GMT'')],
           Write ''PNG'', ResEnd], None)"
proof (intro conjI)
  show "''constructor'' \<notin> set PROXY_HEADER_WHITELIST"
    by (simp add: PROXY_HEADER_WHITELIST_def)
  show v: "keygrip_verify (getKeygrip example_env) ''http://example.com/a.png''
         ''sig_key-2017_httpexamplecomapng''"
    by (simp add: keygrip_verify_def example_env_def example_keygrip_def alnum_chars_def)
  have h: "proxy_response_headers example_env (up_headers example_upstream)
      = [(''content-type'', ''image/png''), (''constructor'', ''x''),
              (''cache-control'', ''public, max-age=2592000''),
              (''expires'', ''Wed, 02 Dec 2026 00:00:00 GMT'')]"
    by (simp add: proxy_response_headers_def whitelist_lookup_def PROXY_HEADER_WHITELIST_def
          object_prototype_properties_def example_upstream_def example_env_def)
  have u: "upstream example_env ''http://example.com/a.png'' = Inr example_upstream"
    "urlParse_host example_env ''http://example.com/a.png'' = Some ''example.com''"
    by (simp_all add: example_env_def)
  show "proxy example_env
         (blank_request\<lparr>req_query := [''url'' \<mapsto> ''http://example.com/a.png'',
                                        ''sig'' \<mapsto> ''sig_key-2017_httpexamplecomapng'']\<rparr>)
       = ([UpstreamRequest ''http://example.com/a.png'' [],
           WriteHead 200 ''OK''
             [(''content-type'', ''image/png''), (''constructor'', ''x''),
              (''cache-control'', ''public, max-age=2592000''),
              (''expires'', ''Wed, 02 Dec 2026 00:00:00 GMT'')],
           Write ''PNG'', ResEnd], None)"
    using v h u
    by (simp add: proxy_def proxy_request_headers_def blank_request_def example_upstream_def)
qed

subsection \<open>Setting an expiration\<close>
















subsection \<open>Reading a shot\<close>

lemma filter_keeps_other_keys:
  "k \<noteq> name \<Longrightarrow> map_of (filter (\<lambda>kv. fst kv \<noteq> name) kvs) k = map_of kvs k"
  by (induction kvs) auto

text \<open>
  C7. Public shot read redacts ownership. For an existing shot whose stored value is a
  JSON object, GET /data/:id/:domain sends the JSON text of that object without its
  \<open>deviceId\<close> property and with every other property as stored; the answer does not depend
  on the caller's deviceId; the \<open>format\<close> query parameter chooses between the compact and
  the indented text of the same value; a missing shot yields 404. What is assumed of
  \<open>JSON.parse\<close> and \<open>JSON.stringify\<close>: parsing either text of the redacted value gives the
  redacted value back.
\<close>

theorem get_data_redacts_owner:
  assumes "shot_getRawValue env (params_id req @ ''/'' @ params_domain req) = Inr (Some stored)"
    and "json_parse env stored = Inr (JObj kvs)"
    and "redacted = JObj (filter (\<lambda>kv. fst kv \<noteq> ''deviceId'') kvs)"
    and "json_parse env (json_stringify env redacted) = Inr redacted"
    and "json_parse env (json_stringify_pretty env redacted) = Inr redacted"
  shows "(\<exists>sent. get_data env req = ([Header ''Content-Type'' ''application/json'', Send sent], None)
             \<and> json_parse env sent = Inr redacted
             \<and> sent = (if req_query req ''format'' = None then json_stringify env redacted
                        else json_stringify_pretty env redacted))
       \<and> get_prop redacted ''deviceId'' = Inr JUndefined
       \<and> (\<forall>k. k \<noteq> ''deviceId'' \<longrightarrow> get_prop redacted k = get_prop (JObj kvs) k)
       \<and> (\<forall>caller. get_data env (req\<lparr>req_deviceId := caller\<rparr>) = get_data env req)
       \<and> (\<forall>other :: ('a, 'b) request_scheme.
             shot_getRawValue env (params_id other @ ''/'' @ params_domain other) = Inr None \<longrightarrow>
             get_data env other = ([SimpleResponse ''No such shot'' 404], None))"
proof -
  have c1: "\<exists>sent. get_data env req = ([Header ''Content-Type'' ''application/json'', Send sent], None)
             \<and> json_parse env sent = Inr redacted
             \<and> sent = (if req_query req ''format'' = None then json_stringify env redacted
                        else json_stringify_pretty env redacted)"
    using assms by (auto simp: get_data_def Let_def)
  have "''deviceId'' \<notin> fst ` set (filter (\<lambda>kv. fst kv \<noteq> ''deviceId'') kvs)" by auto
  then have "map_of (filter (\<lambda>kv. fst kv \<noteq> ''deviceId'') kvs) ''deviceId'' = None"
    by (simp add: map_of_eq_None_iff)
  then have c2: "get_prop redacted ''deviceId'' = Inr JUndefined"
    using assms(3) by simp
  have c3: "get_prop redacted k = get_prop (JObj kvs) k" if "k \<noteq> ''deviceId''" for k
    using that assms(3) by (simp add: filter_keeps_other_keys)
  have c4: "get_data env (req\<lparr>req_deviceId := caller\<rparr>) = get_data env req" for caller
    by (simp add: get_data_def Let_def split: sum.splits option.splits)
  have c5: "get_data env other = ([SimpleResponse ''No such shot'' 404], None)"
    if "shot_getRawValue env (params_id other @ ''/'' @ params_domain other) = Inr None"
    for other :: "('a, 'b) request_scheme"
    using that by (simp add: get_data_def)
  from c1 c2 c3 c4 c5 show ?thesis by blast
qed

theorem get_data_redacts_owner_witness:
  "get_data example_env blank_request
     = ([Header ''Content-Type'' ''application/json'', Send example_compact], None)
   \<and> get_data example_env (blank_request\<lparr>req_query := [''format'' \<mapsto> ''1'']\<rparr>)
     = ([Header ''Content-Type'' ''application/json'', Send example_pretty], None)
   \<and> json_parse example_env example_compact = Inr (JObj [(''url'', JStr ''u'')])
   \<and> json_parse example_env example_pretty = Inr (JObj [(''url'', JStr ''u'')])
   \<and> json_parse example_env example_stored
       = Inr (JObj [(''deviceId'', JStr ''abc123''), (''url'', JStr ''u'')])
   \<and> get_data example_env (blank_request\<lparr>params_id := ''nosuch''\<rparr>)
       = ([SimpleResponse ''No such shot'' 404], None)"
proof -
  let ?fmt = "blank_request\<lparr>req_query := [''format'' \<mapsto> ''1'']\<rparr>"
  have 1: "shot_getRawValue example_env (params_id blank_request @ ''/'' @ params_domain blank_request)
             = Inr (Some example_stored)"
    "shot_getRawValue example_env (params_id ?fmt @ ''/'' @ params_domain ?fmt)
             = Inr (Some example_stored)"
    by (simp_all add: example_env_def blank_request_def)
  have 2: "json_parse example_env example_stored
             = Inr (JObj [(''deviceId'', JStr ''abc123''), (''url'', JStr ''u'')])"
    by (simp add: example_env_def example_json_parse_def)
  have 3: "JObj [(''url'', JStr ''u'')]
             = JObj (filter (\<lambda>kv. fst kv \<noteq> ''deviceId'')
                       [(''deviceId'', JStr ''abc123''), (''url'', (JStr ''u'' :: int jsval))])"
    by simp
  have 4: "json_stringify example_env (JObj [(''url'', JStr ''u'')]) = example_compact"
    "json_stringify_pretty example_env (JObj [(''url'', JStr ''u'')]) = example_pretty"
    by (simp_all add: example_env_def)
  have 5: "json_parse example_env example_compact = Inr (JObj [(''url'', JStr ''u'')])"
    "json_parse example_env example_pretty = Inr (JObj [(''url'', JStr ''u'')])"
    by (simp_all add: example_env_def example_json_parse_def example_stored_def
          example_compact_def example_pretty_def)
  have a: "req_query blank_request ''format'' = None" "req_query ?fmt ''format'' \<noteq> None"
    by (simp_all add: blank_request_def)
  have m: "shot_getRawValue example_env
             (params_id (blank_request\<lparr>params_id := ''nosuch''\<rparr>) @ ''/''
              @ params_domain (blank_request\<lparr>params_id := ''nosuch''\<rparr>)) = Inr None"
    by (simp add: example_env_def blank_request_def)
  have 6: "json_parse example_env (json_stringify example_env (JObj [(''url'', JStr ''u'')]))
             = Inr (JObj [(''url'', JStr ''u'')])"
    "json_parse example_env (json_stringify_pretty example_env (JObj [(''url'', JStr ''u'')]))
             = Inr (JObj [(''url'', JStr ''u'')])"
    using 4 5 by simp_all
  note t1 = get_data_redacts_owner [of example_env blank_request, OF 1(1) 2 3 6]
  note t2 = get_data_redacts_owner [of example_env ?fmt, OF 1(2) 2 3 6]
  from t1 m have n: "get_data example_env (blank_request\<lparr>params_id := ''nosuch''\<rparr>)
       = ([SimpleResponse ''No such shot'' 404], None)"
    by blast
  from t1 4 a have c: "get_data example_env blank_request
     = ([Header ''Content-Type'' ''application/json'', Send example_compact], None)"
    by auto
  from t2 4 a have p: "get_data example_env ?fmt
     = ([Header ''Content-Type'' ''application/json'', Send example_pretty], None)"
    by auto
  from c p n 5 2 show ?thesis by simp
qed

subsection \<open>Session cookies\<close>

text \<open>
  C10. POST /api/unload answers 200 and clears the four session cookies (user, user.sig,
  abtests, abtests.sig) exactly when the body has a string \<open>reason\<close>. For every other body
  the handler throws while reading the reason, before any cookie is cleared: it performs no
  effect at all.
\<close>

theorem unload_reason_required:
  "((\<exists>s. get_prop (req_body req) ''reason'' = Inr (JStr s)) \<longrightarrow>
      unload req = ([CookieSet ''user'' None, CookieSet ''user.sig'' None,
                     CookieSet ''abtests'' None, CookieSet ''abtests.sig'' None,
                     SimpleResponse ''Noted'' 200], None))
   \<and> ((\<forall>s. get_prop (req_body req) ''reason'' \<noteq> Inr (JStr s)) \<longrightarrow>
      fst (unload req) = [] \<and> snd (unload req) \<noteq> None)"
  by (auto simp: unload_def Let_def split: sum.splits jsval.splits)

theorem unload_reason_required_witness:
  "unload (blank_request\<lparr>req_body := JObj [(''reason'', JStr ''addon disabled'')]\<rparr>) =
     ([CookieSet ''user'' None, CookieSet ''user.sig'' None,
       CookieSet ''abtests'' None, CookieSet ''abtests.sig'' None,
       SimpleResponse ''Noted'' 200], None)
   \<and> fst (unload blank_request) = [] \<and> snd (unload blank_request) \<noteq> None"
  using unload_reason_required
          [of "blank_request\<lparr>req_body := JObj [(''reason'', JStr ''addon disabled'')]\<rparr>"]
        unload_reason_required [of blank_request]
  by (simp add: blank_request_def)

end
